theory Spec2Isabelle
  imports Main "HOL-Library.Sublist"
begin

section \<open>The UI helper script \<^verbatim>\<open>static/js/scripts.js\<close>\<close>

text \<open>
  The script attaches one click listener to every \<^verbatim>\<open>.toggle-password\<close> element and one
  to every \<^verbatim>\<open>.btn-danger\<close> element, and declares the helper \<^verbatim>\<open>showToast\<close>. Each
  listener is embedded as a function from the part of the page it reads and writes to
  that part after the listener has run. A JavaScript exception is a value \<open>Inl e\<close>.
  The helper \<^verbatim>\<open>formatDate\<close> only hands its argument to the browser's date parser and
  locale formatter and has no logic of its own to embed.
\<close>

datatype js_error = TypeError

subsection \<open>Password visibility toggle\<close>

text \<open>
  The listener touches two DOM nodes: \<^verbatim>\<open>this\<close> (the toggle control) and
  \<^verbatim>\<open>this.previousElementSibling\<close>, which is \<^verbatim>\<open>null\<close> (here \<open>None\<close>) when the control
  is the first element child of its parent. Of the sibling only the property
  \<^verbatim>\<open>type\<close> is read and written; of the control only \<^verbatim>\<open>innerHTML\<close> is written. The
  sibling is taken to be an input element: its \<^verbatim>\<open>type\<close> reads back the keyword that
  was assigned, and \<^verbatim>\<open>innerHTML\<close> reads back the markup that was assigned, which
  holds for the two literals the listener assigns.
\<close>

record element =
  type :: string

record toggle_button =
  previousElementSibling :: "element option"
  innerHTML :: string

text \<open>The two markup literals of the source, double quotes included.\<close>

definition fa_eye_slash :: string where
  "fa_eye_slash = ''<i class=\"fas fa-eye-slash\"></i>''"

definition fa_eye :: string where
  "fa_eye = ''<i class=\"fas fa-eye\"></i>''"

text \<open>
  \<^verbatim>\<open>
  const input = this.previousElementSibling;
  if (input.type === 'password') {
      input.type = 'text';
      this.innerHTML = '<i class="fas fa-eye-slash"></i>';
  } else {
      input.type = 'password';
      this.innerHTML = '<i class="fas fa-eye"></i>';
  }
  \<close>
  Reading \<^verbatim>\<open>input.type\<close> when \<^verbatim>\<open>input\<close> is \<^verbatim>\<open>null\<close> throws a TypeError before
  anything has been written.
\<close>

definition toggleButtons_click :: "toggle_button \<Rightarrow> js_error + toggle_button" where
  "toggleButtons_click this =
     (case previousElementSibling this of
        None \<Rightarrow> Inl TypeError
      | Some input \<Rightarrow>
          if type input = ''password''
          then Inr (this\<lparr>previousElementSibling := Some (input\<lparr>type := ''text''\<rparr>),
                         innerHTML := fa_eye_slash\<rparr>)
          else Inr (this\<lparr>previousElementSibling := Some (input\<lparr>type := ''password''\<rparr>),
                         innerHTML := fa_eye\<rparr>))"

text \<open>
  \<open>n\<close> clicks on the same control, one after the other, up to the first exception.
\<close>

fun clicks :: "nat \<Rightarrow> toggle_button \<Rightarrow> js_error + toggle_button" where
  "clicks 0 this = Inr this"
| "clicks (Suc n) this =
     (case toggleButtons_click this of
        Inl e \<Rightarrow> Inl e
      | Inr this' \<Rightarrow> clicks n this')"

text \<open>
  The control's icon agrees with the input's masking mode: a masked input
  (\<^verbatim>\<open>type\<close> is \<^verbatim>\<open>password\<close>) goes with the open eye, a revealed one (\<^verbatim>\<open>type\<close> is
  \<^verbatim>\<open>text\<close>) with the closed eye.
\<close>

definition icon_agrees :: "toggle_button \<Rightarrow> bool" where
  "icon_agrees this =
     (case previousElementSibling this of
        None \<Rightarrow> False
      | Some input \<Rightarrow>
          (type input = ''password'' \<and> innerHTML this = fa_eye) \<or>
          (type input = ''text'' \<and> innerHTML this = fa_eye_slash))"

subsection \<open>Confirmation before a destructive action\<close>

text \<open>
  The listener of a \<^verbatim>\<open>.btn-danger\<close> element reads \<^verbatim>\<open>this.dataset.confirm\<close>, may call
  the browser's \<^verbatim>\<open>confirm\<close> and may call \<^verbatim>\<open>e.preventDefault()\<close>. The element is its
  \<^verbatim>\<open>dataset\<close>: a map from names to strings, where a name with no \<^verbatim>\<open>data-*\<close> attribute
  reads as \<^verbatim>\<open>undefined\<close> (here \<open>None\<close>). The click event is its cancelled flag. The
  window holds the document (left abstract), the prompts that \<^verbatim>\<open>confirm\<close> has presented
  and the records written to the console, both oldest first.
\<close>

record danger_button =
  dataset :: "string \<rightharpoonup> string"

record event =
  defaultPrevented :: bool

record 'd window =
  document :: 'd
  dialogs :: "string list"
  console :: "string list"

text \<open>A click event is cancelable, so \<^verbatim>\<open>preventDefault\<close> sets its cancelled flag.\<close>

definition preventDefault :: "event \<Rightarrow> event" where
  "preventDefault e = e\<lparr>defaultPrevented := True\<rparr>"

text \<open>
  \<^verbatim>\<open>confirm(message)\<close> presents the prompt and blocks until the user answers; \<open>user\<close>
  is the answer the user gives to each prompt (\<open>True\<close> for OK).
\<close>

definition confirm :: "(string \<Rightarrow> bool) \<Rightarrow> string \<Rightarrow> 'd window \<Rightarrow> bool \<times> 'd window" where
  "confirm user message w = (user message, w\<lparr>dialogs := dialogs w @ [message]\<rparr>)"

text \<open>
  \<^verbatim>\<open>
  if (this.dataset.confirm) {
      if (!confirm(this.dataset.confirm)) {
          e.preventDefault();
      }
  }
  \<close>
  The outer test is JavaScript truthiness: \<^verbatim>\<open>undefined\<close> and the empty string are
  falsy, every other string is truthy.
\<close>

definition deleteButtons_click ::
  "(string \<Rightarrow> bool) \<Rightarrow> danger_button \<Rightarrow> event \<times> 'd window \<Rightarrow> event \<times> 'd window" where
  "deleteButtons_click user this = (\<lambda>(e, w).
     case dataset this ''confirm'' of
       None \<Rightarrow> (e, w)
     | Some message \<Rightarrow>
         if message = [] then (e, w)
         else (case confirm user message w of
                 (ok, w') \<Rightarrow> if \<not> ok then (preventDefault e, w') else (e, w')))"

subsection \<open>Toast notifier\<close>

definition console_log :: "string \<Rightarrow> 'd window \<Rightarrow> 'd window" where
  "console_log line w = w\<lparr>console := console w @ [line]\<rparr>"

text \<open>
  \<^verbatim>\<open>
  function showToast(message, type = 'info') {
      console.log(`[${type}] ${message}`);
  }
  \<close>
  The second argument is \<open>None\<close> when the caller omits it (or passes \<^verbatim>\<open>undefined\<close>):
  then the default applies.
\<close>

definition showToast :: "string \<Rightarrow> string option \<Rightarrow> 'd window \<Rightarrow> 'd window" where
  "showToast message type' w =
     (let tag = (case type' of None \<Rightarrow> ''info'' | Some t \<Rightarrow> t)
      in console_log (''['' @ tag @ ''] '' @ message) w)"

section \<open>Properties of the toggle listener\<close>

lemma toggleButtons_click_Some:
  "previousElementSibling this = Some input \<Longrightarrow>
   toggleButtons_click this =
     Inr (this\<lparr>previousElementSibling :=
                 Some (input\<lparr>type := (if type input = ''password'' then ''text'' else ''password'')\<rparr>),
               innerHTML := (if type input = ''password'' then fa_eye_slash else fa_eye)\<rparr>)"
  by (simp add: toggleButtons_click_def)

lemma toggleButtons_click_agrees:
  "toggleButtons_click this = Inr this' \<Longrightarrow> icon_agrees this'"
  by (auto simp: toggleButtons_click_def icon_agrees_def split: option.splits if_splits)

text \<open>
  C1. For a toggle control whose preceding sibling is an input, one click succeeds,
  sets the input's \<^verbatim>\<open>type\<close> to \<^verbatim>\<open>text\<close> when it was \<^verbatim>\<open>password\<close> and to
  \<^verbatim>\<open>password\<close> otherwise, and sets the control's markup to the icon of the new mode:
  the closed eye (fa-eye-slash) when the input is now revealed, the open eye (fa-eye)
  when it is now masked. Nothing else of the two nodes changes.
\<close>

theorem toggle_click_flips:
  assumes "previousElementSibling this = Some input"
  shows "(type input = ''password'' \<longrightarrow>
            toggleButtons_click this =
              Inr (this\<lparr>previousElementSibling := Some (input\<lparr>type := ''text''\<rparr>),
                        innerHTML := fa_eye_slash\<rparr>))
         \<and> (type input \<noteq> ''password'' \<longrightarrow>
            toggleButtons_click this =
              Inr (this\<lparr>previousElementSibling := Some (input\<lparr>type := ''password''\<rparr>),
                        innerHTML := fa_eye\<rparr>))"
  using assms by (simp add: toggleButtons_click_def)

theorem toggle_click_flips_witness:
  "previousElementSibling \<lparr>previousElementSibling = Some \<lparr>type = ''password''\<rparr>, innerHTML = fa_eye\<rparr>
     = Some \<lparr>type = ''password''\<rparr>
   \<and> toggleButtons_click \<lparr>previousElementSibling = Some \<lparr>type = ''password''\<rparr>, innerHTML = fa_eye\<rparr>
     = Inr \<lparr>previousElementSibling = Some \<lparr>type = ''text''\<rparr>, innerHTML = fa_eye_slash\<rparr>
   \<and> toggleButtons_click \<lparr>previousElementSibling = Some \<lparr>type = ''text''\<rparr>, innerHTML = fa_eye_slash\<rparr>
     = Inr \<lparr>previousElementSibling = Some \<lparr>type = ''password''\<rparr>, innerHTML = fa_eye\<rparr>"
  using toggle_click_flips
    [of "\<lparr>previousElementSibling = Some \<lparr>type = ''password''\<rparr>, innerHTML = fa_eye\<rparr>"
        "\<lparr>type = ''password''\<rparr>"]
    toggle_click_flips
    [of "\<lparr>previousElementSibling = Some \<lparr>type = ''text''\<rparr>, innerHTML = fa_eye_slash\<rparr>"
        "\<lparr>type = ''text''\<rparr>"]
  by simp

text \<open>
  C9. Clicking a toggle control that has no preceding element sibling is a runtime
  fault: the listener reads \<^verbatim>\<open>type\<close> of \<^verbatim>\<open>null\<close> and throws a TypeError. The
  listener returns normally exactly when the preceding sibling exists.
\<close>

theorem toggle_click_faults_without_sibling:
  "(toggleButtons_click this = Inl TypeError) = (previousElementSibling this = None)
   \<and> (\<exists>this'. toggleButtons_click this = Inr this') = (previousElementSibling this \<noteq> None)"
  by (auto simp: toggleButtons_click_def split: option.splits)

theorem toggle_click_faults_without_sibling_witness:
  "toggleButtons_click \<lparr>previousElementSibling = None, innerHTML = fa_eye\<rparr> = Inl TypeError"
  using toggle_click_faults_without_sibling
    [of "\<lparr>previousElementSibling = None, innerHTML = fa_eye\<rparr>"]
  by simp

text \<open>
  C2, as amended. For a toggle control whose icon agrees with its preceding input at the
  start (\<^verbatim>\<open>type\<close> is \<^verbatim>\<open>password\<close> with the fa-eye markup, or \<^verbatim>\<open>text\<close> with the
  fa-eye-slash markup), two clicks in succession both succeed and restore the input's
  \<^verbatim>\<open>type\<close> and the control's \<^verbatim>\<open>innerHTML\<close>.
\<close>

theorem toggle_two_clicks_restore:
  assumes "icon_agrees this"
  shows "clicks 2 this = Inr this"
  using assms
  by (auto simp: numeral_2_eq_2 toggleButtons_click_def icon_agrees_def split: option.splits)

theorem toggle_two_clicks_restore_witness:
  "icon_agrees \<lparr>previousElementSibling = Some \<lparr>type = ''password''\<rparr>, innerHTML = fa_eye\<rparr>
   \<and> clicks 2 \<lparr>previousElementSibling = Some \<lparr>type = ''password''\<rparr>, innerHTML = fa_eye\<rparr>
     = Inr \<lparr>previousElementSibling = Some \<lparr>type = ''password''\<rparr>, innerHTML = fa_eye\<rparr>"
proof -
  have start: "icon_agrees \<lparr>previousElementSibling = Some \<lparr>type = ''password''\<rparr>, innerHTML = fa_eye\<rparr>"
    by (simp add: icon_agrees_def)
  from start toggle_two_clicks_restore [OF start] show ?thesis
    by simp
qed

text \<open>
  C2, as stated, fails: a control over a masked input whose markup is not one of the
  listener's two literals (here the text \<^verbatim>\<open>Show\<close>) has, after two clicks, the fa-eye
  markup and not its original markup.
\<close>

theorem toggle_two_clicks_counterexample:
  "clicks 2 \<lparr>previousElementSibling = Some \<lparr>type = ''password''\<rparr>, innerHTML = ''Show''\<rparr>
     = Inr \<lparr>previousElementSibling = Some \<lparr>type = ''password''\<rparr>, innerHTML = fa_eye\<rparr>
   \<and> clicks 2 \<lparr>previousElementSibling = Some \<lparr>type = ''password''\<rparr>, innerHTML = ''Show''\<rparr>
     \<noteq> Inr \<lparr>previousElementSibling = Some \<lparr>type = ''password''\<rparr>, innerHTML = ''Show''\<rparr>"
  by (simp add: numeral_2_eq_2 toggleButtons_click_def fa_eye_def)

text \<open>
  Conversely, two clicks give back the state they started from only when it agreed:
  agreement at the start is exactly the condition under which the listener is an
  involution.
\<close>

lemma two_clicks_fixed_only_if_agrees:
  assumes "clicks 2 this = Inr this"
  shows "icon_agrees this"
proof -
  from assms obtain mid where "toggleButtons_click this = Inr mid"
    and "toggleButtons_click mid = Inr this"
    by (auto simp: numeral_2_eq_2 split: sum.splits)
  then show ?thesis
    by (simp add: toggleButtons_click_agrees)
qed

text \<open>
  C8. Starting from a state in which the control's icon agrees with the masking mode
  of its preceding input, every sequence of clicks runs without an exception and ends
  in a state in which they agree again (masked with the open eye, revealed with the
  closed eye); with \<open>n = 1\<close> this is preservation by one run of the listener.
\<close>

theorem toggle_clicks_keep_agreement:
  assumes "icon_agrees this"
  shows "\<exists>this'. clicks n this = Inr this' \<and> icon_agrees this'"
  using assms
proof (induction n arbitrary: this)
  case 0
  then show ?case by simp
next
  case (Suc n)
  from Suc.prems obtain input where "previousElementSibling this = Some input"
    by (auto simp: icon_agrees_def split: option.splits)
  then obtain mid where mid: "toggleButtons_click this = Inr mid"
    using toggleButtons_click_Some by blast
  then have "icon_agrees mid"
    by (rule toggleButtons_click_agrees)
  then obtain this' where "clicks n mid = Inr this'" and "icon_agrees this'"
    using Suc.IH by blast
  with mid show ?case by simp
qed

theorem toggle_clicks_keep_agreement_witness:
  "icon_agrees \<lparr>previousElementSibling = Some \<lparr>type = ''text''\<rparr>, innerHTML = fa_eye_slash\<rparr>
   \<and> (\<exists>this'. clicks 3 \<lparr>previousElementSibling = Some \<lparr>type = ''text''\<rparr>, innerHTML = fa_eye_slash\<rparr>
                = Inr this' \<and> icon_agrees this')"
proof -
  have start: "icon_agrees \<lparr>previousElementSibling = Some \<lparr>type = ''text''\<rparr>, innerHTML = fa_eye_slash\<rparr>"
    by (simp add: icon_agrees_def)
  from start toggle_clicks_keep_agreement [OF start, of 3] show ?thesis
    by blast
qed

section \<open>Properties of the confirmation listener\<close>

text \<open>
  C3. For a danger-action element with a non-empty \<^verbatim>\<open>data-confirm\<close>, one click presents
  exactly that prompt, and \<^verbatim>\<open>preventDefault\<close> is applied to the event if the user
  rejects the prompt and not applied if the user affirms it. So the event ends cancelled
  exactly when it arrived cancelled or the user rejected; an event that arrives
  uncancelled ends cancelled if and only if the user rejected.
\<close>

theorem delete_click_cancels_iff_rejected:
  assumes "dataset this ''confirm'' = Some message" and "message \<noteq> []"
  shows "deleteButtons_click user this (e, w) =
           ((if user message then e else preventDefault e), w\<lparr>dialogs := dialogs w @ [message]\<rparr>)
         \<and> defaultPrevented (fst (deleteButtons_click user this (e, w))) =
             (defaultPrevented e \<or> \<not> user message)"
  using assms by (simp add: deleteButtons_click_def confirm_def preventDefault_def)

theorem delete_click_cancels_iff_rejected_witness:
  "fst (deleteButtons_click (\<lambda>_. False) \<lparr>dataset = [''confirm'' \<mapsto> ''Delete?'']\<rparr>
          (\<lparr>defaultPrevented = False\<rparr>, \<lparr>document = (), dialogs = [], console = []\<rparr>))
     = \<lparr>defaultPrevented = True\<rparr>
   \<and> fst (deleteButtons_click (\<lambda>_. True) \<lparr>dataset = [''confirm'' \<mapsto> ''Delete?'']\<rparr>
          (\<lparr>defaultPrevented = False\<rparr>, \<lparr>document = (), dialogs = [], console = []\<rparr>))
     = \<lparr>defaultPrevented = False\<rparr>
   \<and> dialogs (snd (deleteButtons_click (\<lambda>_. False) \<lparr>dataset = [''confirm'' \<mapsto> ''Delete?'']\<rparr>
          (\<lparr>defaultPrevented = False\<rparr>, \<lparr>document = (), dialogs = [], console = []\<rparr>)))
     = [''Delete?'']"
  using delete_click_cancels_iff_rejected
    [of "\<lparr>dataset = [''confirm'' \<mapsto> ''Delete?'']\<rparr>" "''Delete?''" "\<lambda>_. False"
        "\<lparr>defaultPrevented = False\<rparr>" "\<lparr>document = (), dialogs = [], console = []\<rparr>"]
    delete_click_cancels_iff_rejected
    [of "\<lparr>dataset = [''confirm'' \<mapsto> ''Delete?'']\<rparr>" "''Delete?''" "\<lambda>_. True"
        "\<lparr>defaultPrevented = False\<rparr>" "\<lparr>document = (), dialogs = [], console = []\<rparr>"]
  by (simp add: preventDefault_def)

text \<open>
  C4. For a danger-action element with no \<^verbatim>\<open>data-confirm\<close> attribute, the listener
  presents no dialog and leaves the event as it arrived: nothing is cancelled.
\<close>

theorem delete_click_without_prompt:
  assumes "dataset this ''confirm'' = None"
  shows "deleteButtons_click user this (e, w) = (e, w)"
  using assms by (simp add: deleteButtons_click_def)

theorem delete_click_without_prompt_witness:
  "deleteButtons_click (\<lambda>_. False) \<lparr>dataset = [''id'' \<mapsto> ''7'']\<rparr>
     (\<lparr>defaultPrevented = False\<rparr>, \<lparr>document = (), dialogs = [], console = []\<rparr>)
   = (\<lparr>defaultPrevented = False\<rparr>, \<lparr>document = (), dialogs = [], console = []\<rparr>)"
  using delete_click_without_prompt
    [of "\<lparr>dataset = [''id'' \<mapsto> ''7'']\<rparr>" "\<lambda>_. False"
        "\<lparr>defaultPrevented = False\<rparr>" "\<lparr>document = (), dialogs = [], console = []\<rparr>"]
  by simp

text \<open>
  C10. A \<^verbatim>\<open>data-confirm\<close> attribute that is present and empty is treated as absent:
  the guard is the truthiness of the value, so no dialog is presented and the event is
  left as it arrived.
\<close>

theorem delete_click_empty_prompt:
  assumes "dataset this ''confirm'' = Some []"
  shows "deleteButtons_click user this (e, w) = (e, w)"
  using assms by (simp add: deleteButtons_click_def)

theorem delete_click_empty_prompt_witness:
  "deleteButtons_click (\<lambda>_. False) \<lparr>dataset = [''confirm'' \<mapsto> []]\<rparr>
     (\<lparr>defaultPrevented = False\<rparr>, \<lparr>document = (), dialogs = [], console = []\<rparr>)
   = (\<lparr>defaultPrevented = False\<rparr>, \<lparr>document = (), dialogs = [], console = []\<rparr>)"
  using delete_click_empty_prompt
    [of "\<lparr>dataset = [''confirm'' \<mapsto> []]\<rparr>" "\<lambda>_. False"
        "\<lparr>defaultPrevented = False\<rparr>" "\<lparr>document = (), dialogs = [], console = []\<rparr>"]
  by simp

section \<open>Properties of the toast notifier\<close>

lemma sublist_template:
  "sublist tag (a @ tag @ b @ message)" "sublist message (a @ tag @ b @ message)"
proof -
  show "sublist tag (a @ tag @ b @ message)"
    by (rule sublist_appendI)
  have "suffix message (a @ tag @ b @ message)"
    by (simp add: suffix_def)
  then show "sublist message (a @ tag @ b @ message)"
    by (rule suffix_imp_sublist)
qed

text \<open>
  C7. \<^verbatim>\<open>showToast(message, type)\<close> appends exactly one record to the console, the
  string \<^verbatim>\<open>[type] message\<close>, which contains the tag and the message as substrings; it
  changes neither the document nor the dialogs; and with the tag omitted it does what
  it does with the tag \<^verbatim>\<open>info\<close>.
\<close>

theorem showToast_logs_one_record:
  "console (showToast message (Some tag) w) = console w @ [''['' @ tag @ ''] '' @ message]
   \<and> sublist tag (last (console (showToast message (Some tag) w)))
   \<and> sublist message (last (console (showToast message (Some tag) w)))
   \<and> document (showToast message (Some tag) w) = document w
   \<and> dialogs (showToast message (Some tag) w) = dialogs w
   \<and> showToast message None w = showToast message (Some ''info'') w"
  using sublist_template [where a = "''[''" and b = "''] ''" and tag = tag and message = message]
  by (simp add: showToast_def console_log_def)

theorem showToast_logs_one_record_witness:
  "console (showToast ''Saved'' (Some ''success'') \<lparr>document = (), dialogs = [], console = []\<rparr>)
     = [''[success] Saved'']
   \<and> console (showToast ''Saved'' None \<lparr>document = (), dialogs = [], console = []\<rparr>)
     = [''[info] Saved'']"
  using showToast_logs_one_record
    [of "''Saved''" "''success''" "\<lparr>document = (), dialogs = [], console = []\<rparr>"]
    showToast_logs_one_record
    [of "''Saved''" "''info''" "\<lparr>document = (), dialogs = [], console = []\<rparr>"]
  by simp

end
